theory Spec2Isabelle
  imports Complex_Main "HOL-Library.Log_Nat"
begin

section \<open>Numbers\<close>

text \<open>
  The program computes with Python floats and ints. The amortization formulas of
  analysis\_simulation.py are modelled over exact rationals: every arithmetic operation
  there is the mathematical one. The sizing of a trade and the trading loop of
  tradingBot.py are modelled in double arithmetic, defined further down. The decimal
  rounding that the program asks for with \<^verbatim>\<open>round(x, n)\<close> is modelled: it goes to the
  nearest multiple of \<open>10 ^ -n\<close> and an exact tie goes to the even neighbour, as Python 3
  does.
\<close>

definition py_round :: "nat \<Rightarrow> rat \<Rightarrow> rat" where
  "py_round n x =
     (let s = x * 10 ^ n;
          f = \<lfloor>s\<rfloor>;
          d = s - of_int f
      in of_int (if d < 1 / 2 then f
                 else if 1 / 2 < d then f + 1
                 else if even f then f else f + 1) / 10 ^ n)"

section \<open>analysis\_simulation.py: the amortization formulas\<close>

text \<open>
  The inner loop of \<^verbatim>\<open>depreciate\<close>: starting from \<^verbatim>\<open>ans = CI\<close>, for \<open>j = 1, \<dots>, i\<close>
  add \<^verbatim>\<open>(pow(100 - rate, j - 1) / pow(100, j - 1)) * A\<close>.
\<close>

definition depreciate_inner :: "rat \<Rightarrow> rat \<Rightarrow> rat \<Rightarrow> nat \<Rightarrow> rat" where
  "depreciate_inner rate A CI i =
     fold (\<lambda>j ans. ans + ((100 - rate) ^ (j - 1) / 100 ^ (j - 1)) * A) [1..<Suc i] CI"

text \<open>
  The outer loop over \<^verbatim>\<open>range(1, stop + 1)\<close>, given as the list of its indices. The
  \<^verbatim>\<open>break\<close> leaves the loop with the values of \<^verbatim>\<open>ans\<close> and \<^verbatim>\<open>fixed_capital\<close> reached so far.
\<close>

fun depreciate_loop :: "nat list \<Rightarrow> rat \<Rightarrow> rat \<Rightarrow> rat \<Rightarrow> rat \<Rightarrow> rat \<Rightarrow> rat \<times> rat" where
  "depreciate_loop [] rate A CI ans fixed_capital = (ans, fixed_capital)"
| "depreciate_loop (i # is) rate A CI ans fixed_capital =
     (if fixed_capital < A then (ans, fixed_capital)
      else depreciate_loop is rate A CI (depreciate_inner rate A CI i) (fixed_capital - A))"

text \<open>
  \<^verbatim>\<open>depreciate(stop, rate, A, CI, fixed_capital)\<close>. The guard in front returns the inputs as
  they are; otherwise \<^verbatim>\<open>ans\<close> starts at \<open>0\<close>, the loop runs, and both results are rounded to
  four decimals. A negative \<^verbatim>\<open>stop\<close> gives an empty range, as \<open>0\<close> does.
\<close>

definition depreciate :: "int \<Rightarrow> rat \<Rightarrow> rat \<Rightarrow> rat \<Rightarrow> rat \<Rightarrow> rat \<times> rat" where
  "depreciate stop rate A CI fixed_capital =
     (if fixed_capital < A then (CI, fixed_capital)
      else (case depreciate_loop [1..<Suc (nat stop)] rate A CI 0 fixed_capital of
              (ans, fc) \<Rightarrow> (py_round 4 ans, py_round 4 fc)))"

text \<open>
  The loop of \<^verbatim>\<open>appreciate\<close>: grow \<^verbatim>\<open>ans\<close> by the factor \<open>1 + rate / 100\<close>; when the grown
  value exceeds \<open>A\<close>, move \<open>A\<close> to the fixed capital and go on, otherwise leave the loop with
  the grown value.
\<close>

fun appreciate_loop :: "nat list \<Rightarrow> rat \<Rightarrow> rat \<Rightarrow> rat \<Rightarrow> rat \<Rightarrow> rat \<times> rat" where
  "appreciate_loop [] rate A ans fixed_capital = (ans, fixed_capital)"
| "appreciate_loop (i # is) rate A ans fixed_capital =
     (let grown = (1 + rate / 100) * ans
      in if A < grown then appreciate_loop is rate A (grown - A) (fixed_capital + A)
         else (grown, fixed_capital))"

definition appreciate :: "int \<Rightarrow> rat \<Rightarrow> rat \<Rightarrow> rat \<Rightarrow> rat \<Rightarrow> rat \<times> rat" where
  "appreciate stop rate A CI fixed_capital =
     (case appreciate_loop [1..<Suc (nat stop)] rate A CI fixed_capital of
        (ans, fc) \<Rightarrow> (py_round 4 ans, py_round 4 fc))"


section \<open>Double arithmetic\<close>

text \<open>
  A Python float is an IEEE 754 double: a sign, 53 significant bits and a binary exponent.
  Every arithmetic operation on floats gives the double nearest to the exact result, an
  exact tie going to the double whose last bit is even. \<open>fl\<close> is this rounding on the
  rationals: the exponent is that of the value, not below \<open>-1074\<close> (where the doubles are
  equally spaced down to zero), and the significand is rounded to an integer. Values of
  magnitude \<open>2 ^ 1024\<close> and more, for which Python has an infinity, are outside the model.
\<close>

definition rne :: "rat \<Rightarrow> int" where
  "rne x =
     (let f = \<lfloor>x\<rfloor>; d = x - of_int f
      in if d < 1 / 2 then f
         else if 1 / 2 < d then f + 1
         else if even f then f else f + 1)"

definition pow2 :: "int \<Rightarrow> rat" where
  "pow2 e = (if 0 \<le> e then 2 ^ nat e else 1 / 2 ^ nat (- e))"

text \<open>
  The binary exponent \<open>\<lfloor>log\<^sub>2 x\<rfloor>\<close> of a positive rational, from the bit lengths of its
  numerator and denominator.
\<close>

definition ilog2 :: "rat \<Rightarrow> int" where
  "ilog2 x =
     (case quotient_of x of
        (p, q) \<Rightarrow> let b = bitlen p - bitlen q in if pow2 b \<le> x then b else b - 1)"

definition fl_pos :: "rat \<Rightarrow> rat" where
  "fl_pos x = (let e = max (ilog2 x - 52) (- 1074) in of_int (rne (x / pow2 e)) * pow2 e)"

definition fl :: "rat \<Rightarrow> rat" where
  "fl x = (if x = 0 then 0 else if x < 0 then - fl_pos (- x) else fl_pos x)"

section \<open>The exchange, as the program sees it\<close>

text \<open>
  The exchange is an external collaborator. Its answers are inputs of the model, and what the
  program sends to it is recorded. An entry of \<^verbatim>\<open>info['filters']\<close> is one of the three
  filters the program reads, or any other one. The numbers in the answers are the decimal
  texts the exchange sends; the program turns them into floats with \<^verbatim>\<open>float\<close>, which is
  \<open>fl\<close>.
\<close>

datatype error = SystemExit | ZeroDivisionError | TypeError | KeyError | ValueError | ExchangeError

datatype filter = LOT_SIZE rat | MIN_NOTIONAL rat | PRICE_FILTER rat | OTHER_FILTER

datatype order = order_limit_buy rat rat | order_limit_sell rat rat

text \<open>
  What the exchange answers during one pass of the trading loop: \<open>market\<close> is the symbol
  information and last price fetched at the head of the pass (\<open>None\<close> when the request
  fails), \<open>sizing\<close> is the symbol information and last price fetched again inside
  \<^verbatim>\<open>_get_quantity_to_trade\<close> (\<open>None\<close> when that request raises), and \<open>order_result\<close>
  tells whether the order placed in this pass comes back as an order (\<open>True\<close>) or is
  refused, so that \<^verbatim>\<open>_place_order\<close> returns \<^verbatim>\<open>None\<close>.
\<close>

record tick =
  market :: "(filter list \<times> rat) option"
  sizing :: "(filter list \<times> rat) option"
  order_result :: bool

section \<open>Trade sizing (tradingBot.py and trade.py)\<close>

text \<open>
  The loop over \<^verbatim>\<open>info['filters']\<close>, from \<^verbatim>\<open>step_size = 0.0\<close> and
  \<^verbatim>\<open>min_notional = 0.0\<close>: a later filter of the same type overwrites an earlier one.
\<close>

fun read_filter :: "filter \<Rightarrow> rat \<times> rat \<Rightarrow> rat \<times> rat" where
  "read_filter (LOT_SIZE stepSize) (step_size, min_notional) = (fl stepSize, min_notional)"
| "read_filter (MIN_NOTIONAL minNotional) (step_size, min_notional) = (step_size, fl minNotional)"
| "read_filter _ (step_size, min_notional) = (step_size, min_notional)"

definition trading_filters :: "filter list \<Rightarrow> rat \<times> rat" where
  "trading_filters fs = fold read_filter fs (0, 0)"

text \<open>
  \<^verbatim>\<open>get_quantity_to_trade\<close> is the same function in both files, up to where the amount
  comes from (\<^verbatim>\<open>self.amortized_investment\<close> in tradingBot.py, the argument defaulting to
  \<^verbatim>\<open>cfg.A\<close> in trade.py). A step size of zero ends in \<^verbatim>\<open>exit()\<close>; a price of zero
  divides by zero. The quotient of the raw quantity and the step size is a double before
  \<^verbatim>\<open>math.floor\<close> sees it, and the integer it gives is a float again in the product.
\<close>

definition get_quantity_to_trade ::
  "rat \<Rightarrow> (filter list \<times> rat) option \<Rightarrow> error + (rat \<times> rat)" where
  "get_quantity_to_trade amount answer =
     (case answer of
        None \<Rightarrow> Inl ExchangeError
      | Some (fs, lastPrice) \<Rightarrow>
          (case trading_filters fs of
             (step_size, min_notional) \<Rightarrow>
               if step_size = 0 then Inl SystemExit
               else
                 let current_price = fl lastPrice
                 in if current_price = 0 then Inl ZeroDivisionError
                    else
                      let raw_quantity = fl (amount / current_price);
                          quantity_to_buy =
                            fl (fl (of_int \<lfloor>fl (raw_quantity / step_size)\<rfloor>) * step_size);
                          order_value = fl (quantity_to_buy * current_price)
                      in Inr (if order_value < min_notional then 0 else quantity_to_buy,
                              order_value)))"

text \<open>
  \<^verbatim>\<open>_get_valid_price\<close>: the first \<^verbatim>\<open>PRICE_FILTER\<close> gives the tick size; without one
  the price is returned as it is (the \<^verbatim>\<open>StopIteration\<close> is caught).
\<close>

fun tick_size_of :: "filter list \<Rightarrow> rat option" where
  "tick_size_of [] = None"
| "tick_size_of (PRICE_FILTER tickSize # fs) = Some (fl tickSize)"
| "tick_size_of (_ # fs) = tick_size_of fs"

definition get_valid_price :: "filter list \<Rightarrow> rat \<Rightarrow> error + rat" where
  "get_valid_price info price =
     (case tick_size_of info of
        None \<Rightarrow> Inr price
      | Some tick_size \<Rightarrow>
          if tick_size = 0 then Inl ZeroDivisionError
          else Inr (fl (fl (of_int \<lfloor>fl (price / tick_size)\<rfloor>) * tick_size)))"

section \<open>tradingBot.py: the ledger and its store\<close>

text \<open>
  The attributes of \<^verbatim>\<open>TradingBot\<close> that make up the ledger. The symbol, the path of the
  file, the sleep time and the client handle are not modelled.
\<close>

record bot =
  amortized_investment :: rat
  rate :: rat
  fixed_capital :: rat
  current_investment :: rat
  last_trade_price :: "rat option"

text \<open>
  The state file. A line is the header written by \<^verbatim>\<open>writeheader\<close>, or a row with the
  five columns \<^verbatim>\<open>amortized_investment, rate, current_investment, fixed_capital,
  last_trade_price\<close> in this order. \<open>None\<close> is the absent file. The text of a number is
  not modelled: Python writes a float so that reading it back gives the same float.
\<close>

datatype csv_line = Header | Row rat rat rat rat rat

type_synonym csv_file = "csv_line list option"

definition save_state :: "bot \<Rightarrow> csv_file \<Rightarrow> csv_file" where
  "save_state b file =
     (case last_trade_price b of
        None \<Rightarrow> file
      | Some p \<Rightarrow>
          let row = Row (amortized_investment b) (rate b) (current_investment b)
                        (fixed_capital b) p
          in case file of
               None \<Rightarrow> Some [Header, row]
             | Some ls \<Rightarrow> Some (ls @ [row]))"

text \<open>
  \<^verbatim>\<open>_load_state\<close>. \<^verbatim>\<open>csv.DictReader\<close> takes the first line of the file as the field
  names, whatever it holds, and the other lines as rows. With no row the bot keeps its
  values. Otherwise the last row is read by column name: this fails with a
  \<^verbatim>\<open>KeyError\<close> when the first line was not the header, and \<^verbatim>\<open>float\<close> fails on a
  header's text. Only three fields are taken from the row.
\<close>

definition load_state :: "csv_file \<Rightarrow> bot \<Rightarrow> error + bot" where
  "load_state file b =
     (case file of
        None \<Rightarrow> Inr b
      | Some [] \<Rightarrow> Inr b
      | Some (fieldnames # params) \<Rightarrow>
          if params = [] then Inr b
          else (case fieldnames of
                  Row _ _ _ _ _ \<Rightarrow> Inl KeyError
                | Header \<Rightarrow>
                    (case last params of
                       Header \<Rightarrow> Inl ValueError
                     | Row a r ci fc p \<Rightarrow>
                         Inr (b\<lparr>last_trade_price := Some p,
                                current_investment := ci,
                                fixed_capital := fc\<rparr>))))"

text \<open>
  \<^verbatim>\<open>__init__\<close>: the ledger from the configuration, with no trade price, then
  \<^verbatim>\<open>_load_state\<close>.
\<close>

definition init :: "rat \<Rightarrow> rat \<Rightarrow> rat \<Rightarrow> rat \<Rightarrow> csv_file \<Rightarrow> error + bot" where
  "init A R FC CI file =
     load_state file
       \<lparr>amortized_investment = A, rate = R, fixed_capital = FC,
        current_investment = CI, last_trade_price = None\<rparr>"

text \<open>A store that \<^verbatim>\<open>_save_state\<close> itself has created starts with the header.\<close>

definition has_header :: "csv_file \<Rightarrow> bool" where
  "has_header file =
     (case file of None \<Rightarrow> True | Some [] \<Rightarrow> False | Some (l # ls) \<Rightarrow> l = Header)"

section \<open>tradingBot.py: the trading loop\<close>

text \<open>
  The bot together with the world it acts on: its state file, the orders it has sent to
  the exchange, accepted or not, and the lines of its log that tell which branch a pass
  took: \<^verbatim>\<open>Price depreciated by r%. Considering buy order.\<close>, its counterpart for a sell
  order, and the two warnings \<^verbatim>\<open>Not enough fixed capital to invest. Stopping
  trading.\<close> and \<^verbatim>\<open>Not enough current investment to recover. Stopping trading.\<close> The
  other lines of the log are not modelled.
\<close>

datatype log_line =
    Considering_buy rat
  | Considering_sell rat
  | Not_enough_capital
  | Not_enough_investment

record world =
  self :: bot
  csv :: csv_file
  sent :: "order list"
  logged :: "log_line list"

text \<open>
  How a pass of the loop, or the loop, ends: the loop goes on (\<open>Running\<close>), the function
  \<^verbatim>\<open>run_bot\<close> has returned (\<open>Returned\<close>, after \<^verbatim>\<open>break\<close> or \<^verbatim>\<open>return\<close>), or an
  exception that nothing catches has ended the process (\<open>Raised\<close>); each with the world as
  it is then.
\<close>

datatype outcome = Running world | Returned world | Raised error world

fun world_of :: "outcome \<Rightarrow> world" where
  "world_of (Running w) = w"
| "world_of (Returned w) = w"
| "world_of (Raised e w) = w"

text \<open>The lines that an outcome has added to the log of the world \<open>w\<close> it started from.\<close>

definition new_lines :: "world \<Rightarrow> outcome \<Rightarrow> log_line list" where
  "new_lines w out = drop (length (logged w)) (logged (world_of out))"

datatype action = Buy | Sell | Hold

text \<open>
  The rate of change and the branch taken on it:
  \<^verbatim>\<open>round((abs(current_price - last) / last) * 100, 3)\<close> on floats, then the \<^verbatim>\<open>if\<close>
  and \<^verbatim>\<open>elif\<close> of the loop. \<^verbatim>\<open>round\<close> gives the double nearest to the decimal it
  rounds to.
\<close>

definition rate_change :: "rat \<Rightarrow> rat \<Rightarrow> rat" where
  "rate_change current_price last_price =
     fl (py_round 3 (fl (fl (\<bar>fl (current_price - last_price)\<bar> / last_price) * 100)))"

definition decision :: "rat \<Rightarrow> rat \<Rightarrow> rat \<Rightarrow> action" where
  "decision R last_price current_price =
     (if current_price < last_price \<and> R \<le> rate_change current_price last_price
      then Buy
      else if last_price < current_price \<and> R \<le> rate_change current_price last_price
      then Sell
      else Hold)"

text \<open>
  \<^verbatim>\<open>_place_order\<close>: the limit order goes out with its price written with six decimals;
  the result tells whether an order came back. Every exception is caught there and gives
  \<^verbatim>\<open>None\<close>, as does an order type that is neither buy nor sell, for which nothing is
  sent.
\<close>

definition place_order :: "action \<Rightarrow> rat \<Rightarrow> rat \<Rightarrow> bool \<Rightarrow> order list \<times> bool" where
  "place_order order_type quantity price answer =
     (case order_type of
        Buy \<Rightarrow> ([order_limit_buy quantity (py_round 6 price)], answer)
      | Sell \<Rightarrow> ([order_limit_sell quantity (py_round 6 price)], answer)
      | Hold \<Rightarrow> ([], False))"

text \<open>
  The body shared by the two branches once the capital check has passed: size the trade,
  round the price, place the order, and only when an order comes back set
  \<^verbatim>\<open>last_trade_price\<close> and save the state.
\<close>

definition trade :: "action \<Rightarrow> world \<Rightarrow> tick \<Rightarrow> filter list \<Rightarrow> rat \<Rightarrow> outcome" where
  "trade order_type w t info current_price =
     (case get_quantity_to_trade (amortized_investment (self w)) (sizing t) of
        Inl e \<Rightarrow> Raised e w
      | Inr (quantity, order_value) \<Rightarrow>
          if 0 < quantity then
            (case get_valid_price info current_price of
               Inl e \<Rightarrow> Raised e w
             | Inr limit_price \<Rightarrow>
                 (case place_order order_type quantity limit_price (order_result t) of
                    (orders, order) \<Rightarrow>
                      let w1 = w\<lparr>sent := sent w @ orders\<rparr>
                      in if order then
                           let b = (self w)\<lparr>last_trade_price := Some current_price\<rparr>
                           in Running (w1\<lparr>self := b, csv := save_state b (csv w)\<rparr>)
                         else Running w1))
          else Running w)"

text \<open>
  One pass of \<^verbatim>\<open>while True\<close> in \<^verbatim>\<open>run_bot\<close>. A missing or zero price skips the pass
  (\<^verbatim>\<open>if not current_price\<close>).
\<close>

definition run_bot_tick :: "world \<Rightarrow> tick \<Rightarrow> outcome" where
  "run_bot_tick w t =
     (case market t of
        None \<Rightarrow> Running w
      | Some (info, lastPrice) \<Rightarrow>
          let current_price = fl lastPrice
          in if current_price = 0 then Running w
             else (case last_trade_price (self w) of
                     None \<Rightarrow> Raised TypeError w
                   | Some last_price \<Rightarrow>
                       if last_price = 0 then Raised ZeroDivisionError w
                       else (case decision (rate (self w)) last_price current_price of
                               Buy \<Rightarrow>
                                 let w1 = w\<lparr>logged := logged w @
                                            [Considering_buy
                                               (rate_change current_price last_price)]\<rparr>
                                 in if amortized_investment (self w) \<le> fixed_capital (self w)
                                    then trade Buy w1 t info current_price
                                    else Returned
                                           (w1\<lparr>logged := logged w1 @ [Not_enough_capital]\<rparr>)
                             | Sell \<Rightarrow>
                                 let w1 = w\<lparr>logged := logged w @
                                            [Considering_sell
                                               (rate_change current_price last_price)]\<rparr>
                                 in if amortized_investment (self w)
                                         \<le> current_investment (self w)
                                    then trade Sell w1 t info current_price
                                    else Returned
                                           (w1\<lparr>logged := logged w1 @ [Not_enough_investment]\<rparr>)
                             | Hold \<Rightarrow> Running w)))"

text \<open>
  The loop over the passes the exchange's answers allow to observe: it runs until the
  answers are used up, the function returns or the process ends.
\<close>

fun run_bot_loop :: "world \<Rightarrow> tick list \<Rightarrow> outcome" where
  "run_bot_loop w [] = Running w"
| "run_bot_loop w (t # ts) =
     (case run_bot_tick w t of
        Running w' \<Rightarrow> run_bot_loop w' ts
      | Returned w' \<Rightarrow> Returned w'
      | Raised e w' \<Rightarrow> Raised e w')"

text \<open>
  \<^verbatim>\<open>run_bot\<close> with a connected client: without a trade price the first market answer
  gives it, and with no usable answer the function returns.
\<close>

definition run_bot :: "world \<Rightarrow> (filter list \<times> rat) option \<Rightarrow> tick list \<Rightarrow> outcome" where
  "run_bot w first ts =
     (case last_trade_price (self w) of
        Some last_price \<Rightarrow> run_bot_loop w ts
      | None \<Rightarrow>
          (case first of
             None \<Rightarrow> Returned w
           | Some (info, lastPrice) \<Rightarrow>
               if fl lastPrice = 0 then Returned w
               else run_bot_loop
                      (w\<lparr>self := (self w)\<lparr>last_trade_price := Some (fl lastPrice)\<rparr>\<rparr>) ts))"

text \<open>
  The script trade.py has a loop of its own in \<^verbatim>\<open>TradeBot\<close>. That function assigns
  \<^verbatim>\<open>client\<close>, so the name is local to it, and the test \<^verbatim>\<open>client is None\<close> at the head
  of the loop, outside the \<^verbatim>\<open>try\<close>, reads it before any assignment: the first pass
  raises and no price is ever acted on there. The trading loop that runs is the one of
  \<^verbatim>\<open>run_bot\<close>.
\<close>

section \<open>Rounding\<close>

lemma py_round_of_int [simp]: "py_round n (of_int k / 10 ^ n) = of_int k / 10 ^ n"
  by (simp add: py_round_def)

lemma py_round_int4 [simp]: "py_round 4 (of_int k) = of_int k"
proof -
  have "py_round 4 (of_int (k * 10000) / 10 ^ 4) = of_int (k * 10000) / 10 ^ 4"
    by (rule py_round_of_int)
  then show ?thesis by simp
qed

section \<open>The amortization formulas at the documented inputs\<close>

text \<open>
  C5. \<^verbatim>\<open>depreciate(stop=1, rate=10, A=10, CI=0, fixed_capital=1000)\<close> returns
  \<open>(10, 990)\<close>: one unit \<open>A\<close> leaves the fixed capital and the series with its single term
  adds \<open>A\<close> to the investment.
\<close>

theorem depreciate_documented_example: "depreciate 1 10 10 0 1000 = (10, 990)"
proof -
  have "depreciate_loop [1..<Suc (nat 1)] 10 10 0 0 1000 = (10, 990)"
    by (simp add: depreciate_inner_def)
  moreover have "py_round 4 10 = 10" "py_round 4 990 = 990"
    using py_round_int4 [of 10] py_round_int4 [of 990] by simp_all
  ultimately show ?thesis by (simp add: depreciate_def)
qed

text \<open>
  C6. \<^verbatim>\<open>appreciate(stop=1, rate=10, A=10, CI=10, fixed_capital=990)\<close> returns \<open>(1, 1000)\<close>:
  the investment grows to \<open>11\<close>, which exceeds \<open>A = 10\<close>, so \<open>A\<close> goes back to the fixed
  capital and \<open>1\<close> stays invested.
\<close>

theorem appreciate_documented_example: "appreciate 1 10 10 10 990 = (1, 1000)"
proof -
  have "appreciate_loop [1..<Suc (nat 1)] 10 10 10 990 = (1, 1000)"
    by simp
  moreover have "py_round 4 1 = 1" "py_round 4 1000 = 1000"
    using py_round_int4 [of 1] py_round_int4 [of 1000] by simp_all
  ultimately show ?thesis by (simp add: appreciate_def)
qed

section \<open>Rounding error and the two loops\<close>








section \<open>The amortization formulas: no iteration, and the sum of the two pools\<close>

text \<open>
  C1, as the code has it. \<^verbatim>\<open>depreciate(stop=0, \<dots>)\<close> returns \<open>(CI, fixed_capital)\<close>
  unchanged when \<open>fixed_capital < A\<close>. When \<open>A \<le> fixed_capital\<close> the fixed capital comes
  back rounded to four decimals, so it is unchanged when it is a multiple of \<open>0.0001\<close>.
  Nothing is said here about the investment returned in that second case.
\<close>

theorem depreciate_stop_zero:
  "(fc < A \<longrightarrow> depreciate 0 r A CI fc = (CI, fc)) \<and>
   (A \<le> fc \<longrightarrow> snd (depreciate 0 r A CI fc) = py_round 4 fc) \<and>
   (A \<le> of_int k / 10 ^ 4 \<longrightarrow>
      snd (depreciate 0 r A CI (of_int k / 10 ^ 4)) = of_int k / 10 ^ 4)"
proof (intro conjI impI)
  assume "fc < A"
  then show "depreciate 0 r A CI fc = (CI, fc)" by (simp add: depreciate_def)
next
  assume "A \<le> fc"
  then show "snd (depreciate 0 r A CI fc) = py_round 4 fc" by (simp add: depreciate_def)
next
  assume "A \<le> of_int k / 10 ^ 4"
  then have "snd (depreciate 0 r A CI (of_int k / 10 ^ 4)) = py_round 4 (of_int k / 10 ^ 4)"
    by (simp add: depreciate_def)
  then show "snd (depreciate 0 r A CI (of_int k / 10 ^ 4)) = of_int k / 10 ^ 4"
    by (simp only: py_round_of_int)
qed

theorem depreciate_stop_zero_witness:
  "(5::rat) < 10 \<and> depreciate 0 7 10 3 5 = (3, 5) \<and>
   (10::rat) \<le> 12345678 / 10 ^ 4 \<and>
   snd (depreciate 0 7 10 3 (12345678 / 10 ^ 4)) = 12345678 / 10 ^ 4"
  using depreciate_stop_zero [of 5 10 7 3 0] depreciate_stop_zero [of 0 10 7 3 12345678]
  by simp

text \<open>
  A fixed capital with a fifth decimal does not come back unchanged.
\<close>

theorem depreciate_stop_zero_counterexample:
  "depreciate 0 10 10 0 (100000001 / 100000) \<noteq> (0, 100000001 / 100000)"
  by code_simp

text \<open>
  In that second case the investment returned is \<open>0\<close>, whatever \<open>CI\<close> was: \<^verbatim>\<open>ans\<close> starts
  at \<open>0\<close> and only the loop body sets it to \<open>CI\<close>, while \<^verbatim>\<open>appreciate\<close> starts from
  \<^verbatim>\<open>ans = CI\<close>.
\<close>

lemma depreciate_stop_zero_investment:
  "A \<le> fc \<Longrightarrow> fst (depreciate 0 r A CI fc) = 0"
  by (simp add: depreciate_def py_round_def)

lemma depreciate_stop_zero_drops_investment: "depreciate 0 10 10 5 1000 = (0, 1000)"
  using py_round_int4 [of 0] py_round_int4 [of 1000] by (simp add: depreciate_def)






section \<open>The state store\<close>

text \<open>
  C10. Without a trade price \<^verbatim>\<open>_save_state\<close> appends nothing: the store is left as it
  is, whatever the other fields of the ledger hold. So a bot built on an absent or empty
  store, which has no trade price yet, writes no record however its investment and capital
  are changed.
\<close>

theorem save_state_without_price:
  "(last_trade_price b = None \<longrightarrow> save_state b store = store) \<and>
   ((store0 = None \<or> store0 = Some []) \<and> init A R FC CI store0 = Inr b0 \<longrightarrow>
      save_state (b0\<lparr>current_investment := ci, fixed_capital := fc\<rparr>) store = store)"
  by (auto simp: save_state_def init_def load_state_def)

theorem save_state_without_price_witness:
  "last_trade_price \<lparr>amortized_investment = 10, rate = 5, fixed_capital = 990,
       current_investment = 10, last_trade_price = None\<rparr> = None \<and>
   save_state \<lparr>amortized_investment = 10, rate = 5, fixed_capital = 990,
       current_investment = 10, last_trade_price = None\<rparr> (Some [Header]) = Some [Header] \<and>
   init 10 5 1000 0 None =
     Inr \<lparr>amortized_investment = 10, rate = 5, fixed_capital = 1000,
          current_investment = 0, last_trade_price = None\<rparr> \<and>
   save_state \<lparr>amortized_investment = 10, rate = 5, fixed_capital = 990,
       current_investment = 10, last_trade_price = None\<rparr> None = None"
proof -
  have i: "init 10 5 1000 0 None =
     Inr \<lparr>amortized_investment = 10, rate = 5, fixed_capital = 1000,
          current_investment = 0, last_trade_price = None\<rparr>"
    by (simp add: init_def load_state_def)
  from i save_state_without_price
    [of "\<lparr>amortized_investment = 10, rate = 5, fixed_capital = 990,
          current_investment = 10, last_trade_price = None\<rparr>" "Some [Header]"
        None 10 5 1000 0
        "\<lparr>amortized_investment = 10, rate = 5, fixed_capital = 1000,
          current_investment = 0, last_trade_price = None\<rparr>" 10 990]
    save_state_without_price
    [of "\<lparr>amortized_investment = 10, rate = 5, fixed_capital = 990,
          current_investment = 10, last_trade_price = None\<rparr>" None
        None 10 5 1000 0
        "\<lparr>amortized_investment = 10, rate = 5, fixed_capital = 1000,
          current_investment = 0, last_trade_price = None\<rparr>" 10 990]
  show ?thesis by simp
qed

lemma load_state_appended:
  "load_state (Some (Header # ls @ [Row a r ci fc p])) c =
     Inr (c\<lparr>last_trade_price := Some p, current_investment := ci, fixed_capital := fc\<rparr>)"
  by (simp add: load_state_def)

text \<open>
  C9, as the code has it. For a ledger with a trade price and a store that is absent or
  starts with its header, saving and then loading gives back the saved
  \<^verbatim>\<open>last_trade_price\<close>, \<^verbatim>\<open>current_investment\<close> and \<^verbatim>\<open>fixed_capital\<close>;
  \<^verbatim>\<open>amortized_investment\<close> and \<^verbatim>\<open>rate\<close> are those of the configuration the loading
  bot was built with, not those of the record. From an absent or an empty store, loading
  leaves the configuration defaults as they are.
\<close>

theorem save_then_load:
  "(last_trade_price b = Some p \<and> has_header file \<longrightarrow>
      load_state (save_state b file) c =
        Inr (c\<lparr>last_trade_price := Some p,
               current_investment := current_investment b,
               fixed_capital := fixed_capital b\<rparr>)) \<and>
   load_state None c = Inr c \<and>
   load_state (Some []) c = Inr c"
proof (intro conjI impI)
  assume a: "last_trade_price b = Some p \<and> has_header file"
  show "load_state (save_state b file) c =
        Inr (c\<lparr>last_trade_price := Some p,
               current_investment := current_investment b,
               fixed_capital := fixed_capital b\<rparr>)"
  proof (cases "file")
    case None
    with a load_state_appended [of "[]"] show ?thesis
      by (simp add: save_state_def)
  next
    case (Some ls)
    with a obtain ls' where "ls = Header # ls'"
      by (cases ls) (simp_all add: has_header_def)
    with a Some load_state_appended [of ls'] show ?thesis
      by (simp add: save_state_def)
  qed
qed (simp_all add: load_state_def)

theorem save_then_load_witness:
  "last_trade_price \<lparr>amortized_investment = 10, rate = 5, fixed_capital = 990,
       current_investment = 10, last_trade_price = Some 94\<rparr> = Some 94 \<and>
   has_header (Some [Header, Row 10 5 0 1000 100]) \<and>
   load_state (save_state \<lparr>amortized_investment = 10, rate = 5, fixed_capital = 990,
       current_investment = 10, last_trade_price = Some 94\<rparr>
         (Some [Header, Row 10 5 0 1000 100]))
     \<lparr>amortized_investment = 10, rate = 5, fixed_capital = 1000,
       current_investment = 0, last_trade_price = None\<rparr> =
   Inr \<lparr>amortized_investment = 10, rate = 5, fixed_capital = 990,
       current_investment = 10, last_trade_price = Some 94\<rparr>"
  using save_then_load
    [of "\<lparr>amortized_investment = 10, rate = 5, fixed_capital = 990,
          current_investment = 10, last_trade_price = Some 94\<rparr>" 94
        "Some [Header, Row 10 5 0 1000 100]"
        "\<lparr>amortized_investment = 10, rate = 5, fixed_capital = 1000,
          current_investment = 0, last_trade_price = None\<rparr>"]
  by (simp add: has_header_def)

text \<open>
  A record saved under one configuration and loaded under another keeps the second one's
  \<^verbatim>\<open>amortized_investment\<close> and \<^verbatim>\<open>rate\<close>; and a ledger without a trade price is not
  saved at all, so loading gives the defaults.
\<close>

theorem save_then_load_counterexample:
  "load_state (save_state \<lparr>amortized_investment = 10, rate = 5, fixed_capital = 990,
       current_investment = 10, last_trade_price = Some 94\<rparr> None)
     \<lparr>amortized_investment = 20, rate = 3, fixed_capital = 1000,
       current_investment = 0, last_trade_price = None\<rparr> =
   Inr \<lparr>amortized_investment = 20, rate = 3, fixed_capital = 990,
       current_investment = 10, last_trade_price = Some 94\<rparr> \<and>
   load_state (save_state \<lparr>amortized_investment = 10, rate = 5, fixed_capital = 990,
       current_investment = 10, last_trade_price = None\<rparr> None)
     \<lparr>amortized_investment = 10, rate = 5, fixed_capital = 1000,
       current_investment = 0, last_trade_price = None\<rparr> =
   Inr \<lparr>amortized_investment = 10, rate = 5, fixed_capital = 1000,
       current_investment = 0, last_trade_price = None\<rparr>"
  by (simp add: save_state_def load_state_def)

text \<open>
  A store that exists and is empty gets no header from \<^verbatim>\<open>_save_state\<close>, which writes it
  only when the file does not exist. The first record saved then stands where the reader
  takes the field names from, and loading finds no row.
\<close>

lemma save_into_empty_file_is_lost:
  "last_trade_price b = Some p \<Longrightarrow> load_state (save_state b (Some [])) c = Inr c"
  by (simp add: save_state_def load_state_def)

section \<open>Double arithmetic: sign and magnitude\<close>

lemma pow2_pos: "0 < pow2 e"
  by (simp add: pow2_def)

lemma rne_nonneg: "0 \<le> x \<Longrightarrow> 0 \<le> rne x"
  by (auto simp: rne_def Let_def)

lemma fl_pos_nonneg: "0 \<le> x \<Longrightarrow> 0 \<le> fl_pos x"
proof -
  assume x: "0 \<le> x"
  define e where "e = max (ilog2 x - 52) (- 1074)"
  from x pow2_pos [of e] have "0 \<le> x / pow2 e" by simp
  then have "0 \<le> rne (x / pow2 e)" by (rule rne_nonneg)
  with pow2_pos [of e] have "0 \<le> of_int (rne (x / pow2 e)) * pow2 e" by simp
  then show ?thesis by (simp add: fl_pos_def Let_def e_def)
qed

lemma fl_minus: "fl (- x) = - fl x"
  by (simp add: fl_def)

lemma fl_nonneg: "0 \<le> x \<Longrightarrow> 0 \<le> fl x"
  using fl_pos_nonneg [of x] by (simp add: fl_def)

lemma abs_fl_diff: "a < b \<Longrightarrow> \<bar>fl (a - b)\<bar> = fl (b - a)"
proof -
  assume "a < b"
  then have "0 \<le> fl (b - a)" by (intro fl_nonneg) simp
  moreover have "fl (a - b) = - fl (b - a)"
    using fl_minus [of "b - a"] by simp
  ultimately show ?thesis by simp
qed

section \<open>The decision on a price\<close>

lemma rate_change_falling:
  "current_price < last_price \<Longrightarrow>
     rate_change current_price last_price =
       fl (py_round 3 (fl (fl (fl (last_price - current_price) / last_price) * 100)))"
  by (simp add: rate_change_def abs_fl_diff)

lemma logged_trade: "logged (world_of (trade a w t info p)) = logged w"
  by (simp add: trade_def Let_def split: sum.splits prod.splits)

lemma new_lines_append:
  "logged (world_of out) = logged w @ ls \<Longrightarrow> new_lines w out = ls"
  by (simp add: new_lines_def)

lemma new_lines_run_bot_tick:
  "new_lines w (run_bot_tick w t) =
     (case market t of
        None \<Rightarrow> []
      | Some (info, p) \<Rightarrow>
          if fl p = 0 then []
          else (case last_trade_price (self w) of
                  None \<Rightarrow> []
                | Some l \<Rightarrow>
                    if l = 0 then []
                    else (case decision (rate (self w)) l (fl p) of
                            Buy \<Rightarrow>
                              Considering_buy (rate_change (fl p) l) #
                              (if amortized_investment (self w) \<le> fixed_capital (self w)
                               then [] else [Not_enough_capital])
                          | Sell \<Rightarrow>
                              Considering_sell (rate_change (fl p) l) #
                              (if amortized_investment (self w) \<le> current_investment (self w)
                               then [] else [Not_enough_investment])
                          | Hold \<Rightarrow> [])))"
  by (rule new_lines_append)
     (simp add: run_bot_tick_def Let_def logged_trade
           split: option.splits prod.splits action.splits)

lemma decision_Buy:
  "decision R l p = Buy \<longleftrightarrow> p < l \<and> R \<le> rate_change p l"
  by (simp add: decision_def)

lemma decision_Sell:
  "decision R l p = Sell \<longleftrightarrow> l < p \<and> R \<le> rate_change p l"
  by (auto simp: decision_def)

lemma considering_buy_pass:
  assumes "market t = Some (info, p)" and "last_trade_price (self w) = Some l"
  shows "Considering_buy r \<in> set (new_lines w (run_bot_tick w t)) \<longleftrightarrow>
           fl p \<noteq> 0 \<and> l \<noteq> 0 \<and> fl p < l \<and> rate (self w) \<le> rate_change (fl p) l \<and>
           r = rate_change (fl p) l"
proof (cases "decision (rate (self w)) l (fl p)")
  case Buy
  with assms decision_Buy [of "rate (self w)" l "fl p"] show ?thesis
    unfolding new_lines_run_bot_tick by auto
next
  case Sell
  with assms decision_Buy [of "rate (self w)" l "fl p"] show ?thesis
    unfolding new_lines_run_bot_tick by auto
next
  case Hold
  with assms decision_Buy [of "rate (self w)" l "fl p"] show ?thesis
    unfolding new_lines_run_bot_tick by auto
qed

lemma considering_buy_iff:
  "Considering_buy r \<in> set (new_lines w (run_bot_tick w t)) \<longleftrightarrow>
      (\<exists>info p l. market t = Some (info, p) \<and> fl p \<noteq> 0 \<and>
         last_trade_price (self w) = Some l \<and> l \<noteq> 0 \<and>
         fl p < l \<and> rate (self w) \<le> rate_change (fl p) l \<and> r = rate_change (fl p) l)"
proof (cases "market t")
  case None
  then show ?thesis unfolding new_lines_run_bot_tick by simp
next
  case (Some a)
  obtain info p where a: "a = (info, p)" by (cases a)
  show ?thesis
  proof (cases "last_trade_price (self w)")
    case None
    with Some a show ?thesis unfolding new_lines_run_bot_tick by simp
  next
    case (Some l)
    from considering_buy_pass [OF \<open>market t = Some a\<close> [unfolded a] Some, of r]
    show ?thesis using \<open>market t = Some a\<close> a Some by auto
  qed
qed

text \<open>
  C7, as the code has it. With a price and a last trade price, the move the bot computes,
  in double arithmetic, is \<open>abs(price - last_trade_price) / last_trade_price * 100\<close> rounded
  to three decimals; on a falling price this is
  \<open>(last_trade_price - price) / last_trade_price * 100\<close> rounded to three decimals. A pass
  of the loop considers a buy order exactly when its price is other than zero, the last
  trade price is other than zero, the price is below the last trade price and the rounded
  move is at least the threshold. With threshold \<open>5\<close>, last trade price \<open>100\<close> and price
  \<open>94\<close> the move is \<open>6\<close> and the decision is to buy.
\<close>

theorem buy_trigger:
  "(current_price < last_price \<longrightarrow>
      rate_change current_price last_price =
        fl (py_round 3 (fl (fl (fl (last_price - current_price) / last_price) * 100)))) \<and>
   (Considering_buy r \<in> set (new_lines w (run_bot_tick w t)) \<longleftrightarrow>
      (\<exists>info p l. market t = Some (info, p) \<and> fl p \<noteq> 0 \<and>
         last_trade_price (self w) = Some l \<and> l \<noteq> 0 \<and>
         fl p < l \<and> rate (self w) \<le> rate_change (fl p) l \<and> r = rate_change (fl p) l)) \<and>
   rate_change 94 100 = 6 \<and> decision 5 100 94 = Buy"
proof (intro conjI impI)
  assume "current_price < last_price"
  then show "rate_change current_price last_price =
        fl (py_round 3 (fl (fl (fl (last_price - current_price) / last_price) * 100)))"
    by (rule rate_change_falling)
next
  show "Considering_buy r \<in> set (new_lines w (run_bot_tick w t)) \<longleftrightarrow>
      (\<exists>info p l. market t = Some (info, p) \<and> fl p \<noteq> 0 \<and>
         last_trade_price (self w) = Some l \<and> l \<noteq> 0 \<and>
         fl p < l \<and> rate (self w) \<le> rate_change (fl p) l \<and> r = rate_change (fl p) l)"
    by (rule considering_buy_iff)
next
  show "rate_change 94 100 = 6" by code_simp
  show "decision 5 100 94 = Buy" by code_simp
qed

theorem buy_trigger_witness:
  "(94::rat) < 100 \<and>
   rate_change 94 100 = fl (py_round 3 (fl (fl (fl (100 - 94) / 100) * 100))) \<and>
   Considering_buy 6 \<in> set (new_lines
     \<lparr>self = \<lparr>amortized_investment = 10, rate = 5, fixed_capital = 1000,
              current_investment = 0, last_trade_price = Some 100\<rparr>,
      csv = None, sent = [], logged = []\<rparr>
     (run_bot_tick
        \<lparr>self = \<lparr>amortized_investment = 10, rate = 5, fixed_capital = 1000,
                 current_investment = 0, last_trade_price = Some 100\<rparr>,
         csv = None, sent = [], logged = []\<rparr>
        \<lparr>market = Some ([], 94), sizing = None, order_result = False\<rparr>))"
proof -
  have f: "fl 94 = 94" by code_simp
  have r: "rate_change 94 100 = 6" by code_simp
  have "\<exists>info p l.
      market \<lparr>market = Some ([], 94), sizing = None, order_result = False\<rparr> = Some (info, p) \<and>
      fl p \<noteq> 0 \<and>
      last_trade_price (self
        \<lparr>self = \<lparr>amortized_investment = 10, rate = 5, fixed_capital = 1000,
                 current_investment = 0, last_trade_price = Some 100\<rparr>,
         csv = None, sent = [], logged = []\<rparr>) = Some l \<and> l \<noteq> 0 \<and>
      fl p < l \<and>
      rate (self
        \<lparr>self = \<lparr>amortized_investment = 10, rate = 5, fixed_capital = 1000,
                 current_investment = 0, last_trade_price = Some 100\<rparr>,
         csv = None, sent = [], logged = []\<rparr>) \<le> rate_change (fl p) l \<and>
      6 = rate_change (fl p) l"
    by (intro exI [of _ "[]"] exI [of _ 94] exI [of _ 100]) (simp add: f r)
  with buy_trigger
    [of 94 100 6
        "\<lparr>self = \<lparr>amortized_investment = 10, rate = 5, fixed_capital = 1000,
                 current_investment = 0, last_trade_price = Some 100\<rparr>,
          csv = None, sent = [], logged = []\<rparr>"
        "\<lparr>market = Some ([], 94), sizing = None, order_result = False\<rparr>"]
  show ?thesis by simp
qed

text \<open>
  On a rising price the move computed is the absolute value, not the signed quotient: from
  \<open>100\<close> to \<open>106\<close> it is \<open>6\<close>, where \<open>(last_trade_price - price) / last_trade_price * 100\<close>
  is \<open>-6\<close>.
\<close>

theorem buy_trigger_counterexample:
  "rate_change 106 100 = 6 \<and>
   fl (py_round 3 (fl (fl (fl (100 - 106) / 100) * 100))) = - 6"
  by code_simp

text \<open>
  The move is computed on doubles: from \<open>50000\<close> to \<open>47500.25\<close> the exact quotient is
  \<open>4.9995\<close>, the double product lies just below it, and the move is \<open>4.999\<close>: with a
  threshold of \<open>5\<close> the bot holds.
\<close>

lemma rate_change_below_threshold:
  "rate_change (4750025 / 100) 50000 = fl (4999 / 1000) \<and>
   decision 5 50000 (fl (4750025 / 100)) = Hold"
  by code_simp

section \<open>Effects only after an accepted order\<close>

text \<open>
  Before the loop, a bot without a trade price takes the first price it gets; nothing is
  sent or saved for this.
\<close>

lemma run_bot_first_price:
  "last_trade_price (self w) = None \<Longrightarrow>
     run_bot w (Some (info, p)) [] =
       (if fl p = 0 then Returned w
        else Running (w\<lparr>self := (self w)\<lparr>last_trade_price := Some (fl p)\<rparr>\<rparr>))"
  by (simp add: run_bot_def)

lemma place_order_sent:
  "place_order a q p ok = (os, True) \<Longrightarrow> ok \<and> (\<exists>x. os = [x])"
  by (auto simp: place_order_def split: action.splits)

lemma place_order_length:
  "place_order a q p ok = (os, b) \<Longrightarrow> os = [] \<or> (\<exists>x. os = [x])"
  by (auto simp: place_order_def split: action.splits)

lemma trade_effects:
  assumes "w' = world_of (trade a w t info p)"
  shows "(self w' = self w \<and> csv w' = csv w) \<or>
         (order_result t \<and> (\<exists>x. sent w' = sent w @ [x]) \<and>
          self w' = (self w)\<lparr>last_trade_price := Some p\<rparr> \<and>
          csv w' = save_state (self w') (csv w))"
  using assms
  by (auto simp: trade_def Let_def dest: place_order_sent
           split: sum.splits prod.splits if_splits)

lemma trade_without_order:
  assumes "w' = world_of (trade a w t info p)" and "\<not> order_result t \<or> sent w' = sent w"
  shows "self w' = self w \<and> csv w' = csv w"
  using assms
  by (auto simp: trade_def Let_def dest: place_order_sent
           split: sum.splits prod.splits if_splits)

lemma run_bot_tick_shape:
  "run_bot_tick w t = Running w \<or>
   (\<exists>e. run_bot_tick w t = Raised e w) \<or>
   (\<exists>ls. run_bot_tick w t = Returned (w\<lparr>logged := ls\<rparr>)) \<or>
   (\<exists>a ls info p. market t = Some (info, p) \<and>
      run_bot_tick w t = trade a (w\<lparr>logged := ls\<rparr>) t info (fl p))"
proof (cases "market t")
  case None
  then show ?thesis by (simp add: run_bot_tick_def)
next
  case (Some m)
  obtain info p where m: "market t = Some (info, p)" using Some by (cases m) simp
  show ?thesis
  proof (cases "fl p = 0")
    case True
    with m show ?thesis by (simp add: run_bot_tick_def)
  next
    case p0: False
    show ?thesis
    proof (cases "last_trade_price (self w)")
      case None
      with m p0 show ?thesis by (simp add: run_bot_tick_def)
    next
      case (Some l)
      show ?thesis
      proof (cases "l = 0")
        case True
        with m p0 Some show ?thesis by (simp add: run_bot_tick_def)
      next
        case l0: False
        show ?thesis
        proof (cases "decision (rate (self w)) l (fl p)")
          case Buy
          show ?thesis
          proof (cases "amortized_investment (self w) \<le> fixed_capital (self w)")
            case True
            with m p0 Some l0 Buy have
              "run_bot_tick w t =
                 trade Buy (w\<lparr>logged := logged w @ [Considering_buy (rate_change (fl p) l)]\<rparr>)
                   t info (fl p)"
              by (simp add: run_bot_tick_def Let_def)
            with m show ?thesis by blast
          next
            case False
            with m p0 Some l0 Buy have
              "run_bot_tick w t =
                 Returned (w\<lparr>logged := logged w @
                    [Considering_buy (rate_change (fl p) l), Not_enough_capital]\<rparr>)"
              by (simp add: run_bot_tick_def Let_def)
            then show ?thesis by blast
          qed
        next
          case Sell
          show ?thesis
          proof (cases "amortized_investment (self w) \<le> current_investment (self w)")
            case True
            with m p0 Some l0 Sell have
              "run_bot_tick w t =
                 trade Sell (w\<lparr>logged := logged w @ [Considering_sell (rate_change (fl p) l)]\<rparr>)
                   t info (fl p)"
              by (simp add: run_bot_tick_def Let_def)
            with m show ?thesis by blast
          next
            case False
            with m p0 Some l0 Sell have
              "run_bot_tick w t =
                 Returned (w\<lparr>logged := logged w @
                    [Considering_sell (rate_change (fl p) l), Not_enough_investment]\<rparr>)"
              by (simp add: run_bot_tick_def Let_def)
            then show ?thesis by blast
          qed
        next
          case Hold
          with m p0 Some l0 show ?thesis by (simp add: run_bot_tick_def)
        qed
      qed
    qed
  qed
qed

lemma run_bot_tick_cases:
  assumes "w' = world_of (run_bot_tick w t)"
  shows "(self w' = self w \<and> csv w' = csv w \<and> sent w' = sent w) \<or>
         (\<exists>a w1 info p. self w1 = self w \<and> csv w1 = csv w \<and> sent w1 = sent w \<and>
            market t = Some (info, p) \<and> w' = world_of (trade a w1 t info (fl p)))"
proof -
  from run_bot_tick_shape [of w t]
  consider "run_bot_tick w t = Running w"
    | e where "run_bot_tick w t = Raised e w"
    | ls where "run_bot_tick w t = Returned (w\<lparr>logged := ls\<rparr>)"
    | a ls info p where "market t = Some (info, p)"
        "run_bot_tick w t = trade a (w\<lparr>logged := ls\<rparr>) t info (fl p)"
    by blast
  then show ?thesis
  proof cases
    case 4
    with assms have "w' = world_of (trade a (w\<lparr>logged := ls\<rparr>) t info (fl p))" by simp
    with 4(1) show ?thesis
      by (intro disjI2 exI [of _ a] exI [of _ "w\<lparr>logged := ls\<rparr>"] exI [of _ info] exI [of _ p])
         simp
  qed (use assms in simp_all)
qed

lemma place_order_accepted:
  "place_order a q p ok = (os, b) \<Longrightarrow> ok \<Longrightarrow> os \<noteq> [] \<Longrightarrow> b"
  by (auto simp: place_order_def split: action.splits)

lemma trade_accepted:
  assumes "w' = world_of (trade a w t info p)" and "order_result t" and "sent w' \<noteq> sent w"
  shows "self w' = (self w)\<lparr>last_trade_price := Some p\<rparr> \<and>
         csv w' = save_state (self w') (csv w)"
  using assms
  by (auto simp: trade_def Let_def dest: place_order_accepted
           split: sum.splits prod.splits if_splits)

lemma run_bot_tick_accepted:
  assumes "order_result t" and "sent (world_of (run_bot_tick w t)) \<noteq> sent w"
  shows "(\<exists>info p. market t = Some (info, p) \<and>
           self (world_of (run_bot_tick w t)) = (self w)\<lparr>last_trade_price := Some (fl p)\<rparr>) \<and>
         csv (world_of (run_bot_tick w t)) =
           save_state (self (world_of (run_bot_tick w t))) (csv w)"
proof -
  define w' where "w' = world_of (run_bot_tick w t)"
  from run_bot_tick_cases [OF w'_def] assms(2) [folded w'_def]
  obtain a w1 info p where 1: "self w1 = self w" "csv w1 = csv w" "sent w1 = sent w"
        "market t = Some (info, p)" "w' = world_of (trade a w1 t info (fl p))"
    by blast
  from assms(2) 1(3) have "sent w' \<noteq> sent w1" by (simp add: w'_def)
  from trade_accepted [OF 1(5) assms(1) this] 1(1,2,4)
  have "(\<exists>info p. market t = Some (info, p) \<and>
           self w' = (self w)\<lparr>last_trade_price := Some (fl p)\<rparr>) \<and>
         csv w' = save_state (self w') (csv w)"
    by auto
  then show ?thesis unfolding w'_def .
qed

lemma run_bot_tick_example_accepted:
  "run_bot_tick
     \<lparr>self = \<lparr>amortized_investment = 10, rate = 5, fixed_capital = 1000,
              current_investment = 0, last_trade_price = Some 100\<rparr>,
      csv = None, sent = [], logged = []\<rparr>
     \<lparr>market = Some ([PRICE_FILTER (1 / 100)], 94),
      sizing = Some ([LOT_SIZE (1 / 100), MIN_NOTIONAL 5], 94), order_result = True\<rparr> =
   Running
     \<lparr>self = \<lparr>amortized_investment = 10, rate = 5, fixed_capital = 1000,
              current_investment = 0, last_trade_price = Some 94\<rparr>,
      csv = Some [Header, Row 10 5 0 1000 94],
      sent = [order_limit_buy (fl (1 / 10)) 94],
      logged = [Considering_buy 6]\<rparr>"
  by code_simp

lemma run_bot_tick_example_refused:
  "run_bot_tick
     \<lparr>self = \<lparr>amortized_investment = 10, rate = 5, fixed_capital = 1000,
              current_investment = 0, last_trade_price = Some 100\<rparr>,
      csv = None, sent = [], logged = []\<rparr>
     \<lparr>market = Some ([PRICE_FILTER (1 / 100)], 94),
      sizing = Some ([LOT_SIZE (1 / 100), MIN_NOTIONAL 5], 94), order_result = False\<rparr> =
   Running
     \<lparr>self = \<lparr>amortized_investment = 10, rate = 5, fixed_capital = 1000,
              current_investment = 0, last_trade_price = Some 100\<rparr>,
      csv = None,
      sent = [order_limit_buy (fl (1 / 10)) 94],
      logged = [Considering_buy 6]\<rparr>"
  by code_simp

lemma run_bot_tick_only_after_order:
  "((self (world_of (run_bot_tick w t)) \<noteq> self w \<or> csv (world_of (run_bot_tick w t)) \<noteq> csv w)
      \<longrightarrow>
      order_result t \<and>
      (\<exists>x. sent (world_of (run_bot_tick w t)) = sent w @ [x]) \<and>
      (\<exists>info p. market t = Some (info, p) \<and>
         self (world_of (run_bot_tick w t)) = (self w)\<lparr>last_trade_price := Some (fl p)\<rparr>) \<and>
      csv (world_of (run_bot_tick w t)) = save_state (self (world_of (run_bot_tick w t))) (csv w)) \<and>
   (\<not> order_result t \<or> sent (world_of (run_bot_tick w t)) = sent w \<longrightarrow>
      self (world_of (run_bot_tick w t)) = self w \<and> csv (world_of (run_bot_tick w t)) = csv w)"
proof -
  define w' where "w' = world_of (run_bot_tick w t)"
  from run_bot_tick_cases [OF w'_def]
  consider "self w' = self w \<and> csv w' = csv w \<and> sent w' = sent w"
    | a w1 info p where "self w1 = self w" "csv w1 = csv w" "sent w1 = sent w"
        "market t = Some (info, p)" "w' = world_of (trade a w1 t info (fl p))"
    by blast
  then have "((self w' \<noteq> self w \<or> csv w' \<noteq> csv w) \<longrightarrow>
      order_result t \<and> (\<exists>x. sent w' = sent w @ [x]) \<and>
      (\<exists>info p. market t = Some (info, p) \<and>
         self w' = (self w)\<lparr>last_trade_price := Some (fl p)\<rparr>) \<and>
      csv w' = save_state (self w') (csv w)) \<and>
     (\<not> order_result t \<or> sent w' = sent w \<longrightarrow> self w' = self w \<and> csv w' = csv w)"
  proof cases
    case 1
    then show ?thesis by simp
  next
    case 2
    from trade_effects [OF 2(5)] trade_without_order [OF 2(5)] 2(1-4)
    show ?thesis by auto
  qed
  then show ?thesis unfolding w'_def .
qed

text \<open>
  C3. In every pass of the loop of \<^verbatim>\<open>run_bot\<close>, the ledger and the store change only
  when an order was sent in this pass and came back: then exactly one order was sent, the
  last trade price is the price of the pass and the new ledger is the record appended to
  the store. When the order is refused, or none is sent, the ledger and the store are as
  they were, whether the pass goes on, returns or raises. And when an order was sent and
  came back, the last trade price is set and the ledger saved.
\<close>

theorem no_speculative_mutation:
  "((self (world_of (run_bot_tick w t)) \<noteq> self w \<or> csv (world_of (run_bot_tick w t)) \<noteq> csv w)
      \<longrightarrow>
      order_result t \<and>
      (\<exists>x. sent (world_of (run_bot_tick w t)) = sent w @ [x]) \<and>
      (\<exists>info p. market t = Some (info, p) \<and>
         self (world_of (run_bot_tick w t)) = (self w)\<lparr>last_trade_price := Some (fl p)\<rparr>) \<and>
      csv (world_of (run_bot_tick w t)) = save_state (self (world_of (run_bot_tick w t))) (csv w)) \<and>
   (\<not> order_result t \<or> sent (world_of (run_bot_tick w t)) = sent w \<longrightarrow>
      self (world_of (run_bot_tick w t)) = self w \<and> csv (world_of (run_bot_tick w t)) = csv w) \<and>
   (order_result t \<and> sent (world_of (run_bot_tick w t)) \<noteq> sent w \<longrightarrow>
      (\<exists>info p. market t = Some (info, p) \<and>
         self (world_of (run_bot_tick w t)) = (self w)\<lparr>last_trade_price := Some (fl p)\<rparr>) \<and>
      csv (world_of (run_bot_tick w t)) = save_state (self (world_of (run_bot_tick w t))) (csv w))"
proof -
  note a = run_bot_tick_only_after_order [of w t]
  have c: "order_result t \<and> sent (world_of (run_bot_tick w t)) \<noteq> sent w \<longrightarrow>
      (\<exists>info p. market t = Some (info, p) \<and>
         self (world_of (run_bot_tick w t)) = (self w)\<lparr>last_trade_price := Some (fl p)\<rparr>) \<and>
      csv (world_of (run_bot_tick w t)) = save_state (self (world_of (run_bot_tick w t))) (csv w)"
    using run_bot_tick_accepted [of t w] by blast
  show ?thesis
    by (intro conjI) (rule a [THEN conjunct1], rule a [THEN conjunct2], rule c)
qed

theorem no_speculative_mutation_witness:
  "\<not> order_result \<lparr>market = Some ([PRICE_FILTER (1 / 100)], 94),
      sizing = Some ([LOT_SIZE (1 / 100), MIN_NOTIONAL 5], 94), order_result = False\<rparr> \<and>
   self (world_of (run_bot_tick
     \<lparr>self = \<lparr>amortized_investment = 10, rate = 5, fixed_capital = 1000,
              current_investment = 0, last_trade_price = Some 100\<rparr>,
      csv = None, sent = [], logged = []\<rparr>
     \<lparr>market = Some ([PRICE_FILTER (1 / 100)], 94),
      sizing = Some ([LOT_SIZE (1 / 100), MIN_NOTIONAL 5], 94), order_result = False\<rparr>)) =
     \<lparr>amortized_investment = 10, rate = 5, fixed_capital = 1000,
      current_investment = 0, last_trade_price = Some 100\<rparr> \<and>
   csv (world_of (run_bot_tick
     \<lparr>self = \<lparr>amortized_investment = 10, rate = 5, fixed_capital = 1000,
              current_investment = 0, last_trade_price = Some 100\<rparr>,
      csv = None, sent = [], logged = []\<rparr>
     \<lparr>market = Some ([PRICE_FILTER (1 / 100)], 94),
      sizing = Some ([LOT_SIZE (1 / 100), MIN_NOTIONAL 5], 94), order_result = False\<rparr>)) = None \<and>
   order_result \<lparr>market = Some ([PRICE_FILTER (1 / 100)], 94),
      sizing = Some ([LOT_SIZE (1 / 100), MIN_NOTIONAL 5], 94), order_result = True\<rparr> \<and>
   sent (world_of (run_bot_tick
     \<lparr>self = \<lparr>amortized_investment = 10, rate = 5, fixed_capital = 1000,
              current_investment = 0, last_trade_price = Some 100\<rparr>,
      csv = None, sent = [], logged = []\<rparr>
     \<lparr>market = Some ([PRICE_FILTER (1 / 100)], 94),
      sizing = Some ([LOT_SIZE (1 / 100), MIN_NOTIONAL 5], 94), order_result = True\<rparr>)) \<noteq> [] \<and>
   self (world_of (run_bot_tick
     \<lparr>self = \<lparr>amortized_investment = 10, rate = 5, fixed_capital = 1000,
              current_investment = 0, last_trade_price = Some 100\<rparr>,
      csv = None, sent = [], logged = []\<rparr>
     \<lparr>market = Some ([PRICE_FILTER (1 / 100)], 94),
      sizing = Some ([LOT_SIZE (1 / 100), MIN_NOTIONAL 5], 94), order_result = True\<rparr>)) =
     \<lparr>amortized_investment = 10, rate = 5, fixed_capital = 1000,
      current_investment = 0, last_trade_price = Some 94\<rparr> \<and>
   csv (world_of (run_bot_tick
     \<lparr>self = \<lparr>amortized_investment = 10, rate = 5, fixed_capital = 1000,
              current_investment = 0, last_trade_price = Some 100\<rparr>,
      csv = None, sent = [], logged = []\<rparr>
     \<lparr>market = Some ([PRICE_FILTER (1 / 100)], 94),
      sizing = Some ([LOT_SIZE (1 / 100), MIN_NOTIONAL 5], 94), order_result = True\<rparr>)) =
     Some [Header, Row 10 5 0 1000 94]"
proof -
  let ?W = "\<lparr>self = \<lparr>amortized_investment = 10, rate = 5, fixed_capital = 1000,
              current_investment = 0, last_trade_price = Some 100\<rparr>,
      csv = None, sent = [], logged = []\<rparr>"
  let ?Tf = "\<lparr>market = Some ([PRICE_FILTER (1 / 100)], 94),
      sizing = Some ([LOT_SIZE (1 / 100), MIN_NOTIONAL 5], 94), order_result = False\<rparr>"
  let ?Ta = "\<lparr>market = Some ([PRICE_FILTER (1 / 100)], 94),
      sizing = Some ([LOT_SIZE (1 / 100), MIN_NOTIONAL 5], 94), order_result = True\<rparr>"
  have of_f: "\<not> order_result ?Tf" and of_a: "order_result ?Ta" by simp_all
  from of_f no_speculative_mutation [of ?W ?Tf]
  have rf: "self (world_of (run_bot_tick ?W ?Tf)) = self ?W"
    "csv (world_of (run_bot_tick ?W ?Tf)) = csv ?W"
    by blast+
  have sW: "sent ?W = []" by simp
  have sa: "sent (world_of (run_bot_tick ?W ?Ta)) \<noteq> []"
    by (simp only: run_bot_tick_example_accepted) simp
  have "sent (world_of (run_bot_tick ?W ?Ta)) \<noteq> sent ?W"
    unfolding sW by (rule sa)
  with of_a no_speculative_mutation [of ?W ?Ta]
  obtain info p where m: "market ?Ta = Some (info, p)"
    and na: "self (world_of (run_bot_tick ?W ?Ta)) = (self ?W)\<lparr>last_trade_price := Some (fl p)\<rparr>"
    and ca: "csv (world_of (run_bot_tick ?W ?Ta)) =
               save_state (self (world_of (run_bot_tick ?W ?Ta))) (csv ?W)"
    by blast
  from m have p: "p = 94" by simp
  have f: "fl 94 = 94" by code_simp
  have n: "(self ?W)\<lparr>last_trade_price := Some (fl 94)\<rparr> =
      \<lparr>amortized_investment = 10, rate = 5, fixed_capital = 1000,
       current_investment = 0, last_trade_price = Some 94\<rparr>"
    by (simp add: f)
  from na p n have na': "self (world_of (run_bot_tick ?W ?Ta)) =
      \<lparr>amortized_investment = 10, rate = 5, fixed_capital = 1000,
       current_investment = 0, last_trade_price = Some 94\<rparr>"
    by (simp only:)
  have "save_state \<lparr>amortized_investment = 10, rate = 5, fixed_capital = 1000,
       current_investment = 0, last_trade_price = Some 94\<rparr> (csv ?W) =
       Some [Header, Row 10 5 0 1000 94]"
    by (simp add: save_state_def)
  with ca na' have ca': "csv (world_of (run_bot_tick ?W ?Ta)) = Some [Header, Row 10 5 0 1000 94]"
    by (simp only:)
  have "self ?W = \<lparr>amortized_investment = 10, rate = 5, fixed_capital = 1000,
      current_investment = 0, last_trade_price = Some 100\<rparr>" and "csv ?W = None"
    by simp_all
  with rf have rf': "self (world_of (run_bot_tick ?W ?Tf)) =
      \<lparr>amortized_investment = 10, rate = 5, fixed_capital = 1000,
      current_investment = 0, last_trade_price = Some 100\<rparr>"
    "csv (world_of (run_bot_tick ?W ?Tf)) = None"
    by (simp_all only:)
  show ?thesis
    by (intro conjI) (rule of_f, rule rf'(1), rule rf'(2), rule of_a, rule sa, rule na', rule ca')
qed

section \<open>Halting\<close>

lemma not_enough_capital_pass:
  assumes "market t = Some (info, p)" and "last_trade_price (self w) = Some l"
  shows "Not_enough_capital \<in> set (new_lines w (run_bot_tick w t)) \<longleftrightarrow>
           fl p \<noteq> 0 \<and> l \<noteq> 0 \<and> decision (rate (self w)) l (fl p) = Buy \<and>
           fixed_capital (self w) < amortized_investment (self w)"
  using assms unfolding new_lines_run_bot_tick
  by (cases "decision (rate (self w)) l (fl p)") auto

lemma not_enough_investment_pass:
  assumes "market t = Some (info, p)" and "last_trade_price (self w) = Some l"
  shows "Not_enough_investment \<in> set (new_lines w (run_bot_tick w t)) \<longleftrightarrow>
           fl p \<noteq> 0 \<and> l \<noteq> 0 \<and> decision (rate (self w)) l (fl p) = Sell \<and>
           current_investment (self w) < amortized_investment (self w)"
  using assms unfolding new_lines_run_bot_tick
  by (cases "decision (rate (self w)) l (fl p)") auto

lemma warning_market:
  assumes "Not_enough_capital \<in> set (new_lines w (run_bot_tick w t)) \<or>
           Not_enough_investment \<in> set (new_lines w (run_bot_tick w t))"
  shows "\<exists>info p l. market t = Some (info, p) \<and> last_trade_price (self w) = Some l"
proof (cases "market t")
  case None
  with assms show ?thesis unfolding new_lines_run_bot_tick by simp
next
  case (Some m)
  obtain info p where m: "market t = Some (info, p)" using Some by (cases m) simp
  show ?thesis
  proof (cases "last_trade_price (self w)")
    case None
    with assms m show ?thesis unfolding new_lines_run_bot_tick by (auto split: if_splits)
  next
    case (Some l)
    with m show ?thesis by blast
  qed
qed

lemma warning_returns:
  assumes "Not_enough_capital \<in> set (new_lines w (run_bot_tick w t)) \<or>
           Not_enough_investment \<in> set (new_lines w (run_bot_tick w t))"
  shows "\<exists>ls. run_bot_tick w t = Returned (w\<lparr>logged := ls\<rparr>)"
proof -
  from warning_market [OF assms] obtain info p l
    where m: "market t = Some (info, p)" and l: "last_trade_price (self w) = Some l"
    by blast
  from assms show ?thesis
  proof
    assume "Not_enough_capital \<in> set (new_lines w (run_bot_tick w t))"
    with not_enough_capital_pass [OF m l]
    have "fl p \<noteq> 0" "l \<noteq> 0" "decision (rate (self w)) l (fl p) = Buy"
      "fixed_capital (self w) < amortized_investment (self w)" by simp_all
    with m l have "run_bot_tick w t =
        Returned (w\<lparr>logged := logged w @
          [Considering_buy (rate_change (fl p) l), Not_enough_capital]\<rparr>)"
      by (simp add: run_bot_tick_def Let_def)
    then show ?thesis by blast
  next
    assume "Not_enough_investment \<in> set (new_lines w (run_bot_tick w t))"
    with not_enough_investment_pass [OF m l]
    have "fl p \<noteq> 0" "l \<noteq> 0" "decision (rate (self w)) l (fl p) = Sell"
      "current_investment (self w) < amortized_investment (self w)" by simp_all
    with m l have "run_bot_tick w t =
        Returned (w\<lparr>logged := logged w @
          [Considering_sell (rate_change (fl p) l), Not_enough_investment]\<rparr>)"
      by (simp add: run_bot_tick_def Let_def)
    then show ?thesis by blast
  qed
qed

lemma run_bot_loop_append:
  "run_bot_loop w ts = Running w1 \<Longrightarrow> run_bot_loop w (ts @ us) = run_bot_loop w1 us"
  by (induction ts arbitrary: w) (auto split: outcome.splits)

text \<open>
  C4. A pass of \<^verbatim>\<open>run_bot\<close> warns of too little fixed capital exactly when it decides
  to buy and the fixed capital is below the amortized investment, and of too little
  investment exactly when it decides to sell and the investment is below it. Once a pass
  has given either warning, the loop has returned, whatever prices follow: the ledger, the
  store and the orders sent are those from before that pass, and nothing was raised.
\<close>

theorem halted_is_terminal:
  "(market t = Some (info, p) \<and> last_trade_price (self w1) = Some l \<longrightarrow>
      (Not_enough_capital \<in> set (new_lines w1 (run_bot_tick w1 t)) \<longleftrightarrow>
         fl p \<noteq> 0 \<and> l \<noteq> 0 \<and> decision (rate (self w1)) l (fl p) = Buy \<and>
         fixed_capital (self w1) < amortized_investment (self w1)) \<and>
      (Not_enough_investment \<in> set (new_lines w1 (run_bot_tick w1 t)) \<longleftrightarrow>
         fl p \<noteq> 0 \<and> l \<noteq> 0 \<and> decision (rate (self w1)) l (fl p) = Sell \<and>
         current_investment (self w1) < amortized_investment (self w1))) \<and>
   (run_bot_loop w ts1 = Running w1 \<and>
    (Not_enough_capital \<in> set (new_lines w1 (run_bot_tick w1 t)) \<or>
     Not_enough_investment \<in> set (new_lines w1 (run_bot_tick w1 t))) \<longrightarrow>
      (\<exists>w'. run_bot_loop w (ts1 @ t # ts2) = Returned w' \<and>
            self w' = self w1 \<and> csv w' = csv w1 \<and> sent w' = sent w1))"
proof (intro conjI impI)
  assume a: "market t = Some (info, p) \<and> last_trade_price (self w1) = Some l"
  then show "Not_enough_capital \<in> set (new_lines w1 (run_bot_tick w1 t)) \<longleftrightarrow>
         fl p \<noteq> 0 \<and> l \<noteq> 0 \<and> decision (rate (self w1)) l (fl p) = Buy \<and>
         fixed_capital (self w1) < amortized_investment (self w1)"
    using not_enough_capital_pass by blast
  from a show "Not_enough_investment \<in> set (new_lines w1 (run_bot_tick w1 t)) \<longleftrightarrow>
         fl p \<noteq> 0 \<and> l \<noteq> 0 \<and> decision (rate (self w1)) l (fl p) = Sell \<and>
         current_investment (self w1) < amortized_investment (self w1)"
    using not_enough_investment_pass by blast
next
  assume a: "run_bot_loop w ts1 = Running w1 \<and>
    (Not_enough_capital \<in> set (new_lines w1 (run_bot_tick w1 t)) \<or>
     Not_enough_investment \<in> set (new_lines w1 (run_bot_tick w1 t)))"
  then obtain ls where r: "run_bot_tick w1 t = Returned (w1\<lparr>logged := ls\<rparr>)"
    using warning_returns by blast
  from a have "run_bot_loop w (ts1 @ t # ts2) = run_bot_loop w1 (t # ts2)"
    by (intro run_bot_loop_append) simp
  with r have "run_bot_loop w (ts1 @ t # ts2) = Returned (w1\<lparr>logged := ls\<rparr>)"
    by simp
  then show "\<exists>w'. run_bot_loop w (ts1 @ t # ts2) = Returned w' \<and>
            self w' = self w1 \<and> csv w' = csv w1 \<and> sent w' = sent w1"
    by simp
qed

theorem halted_is_terminal_witness:
  "market \<lparr>market = Some ([], 94), sizing = None, order_result = True\<rparr> = Some ([], 94) \<and>
   last_trade_price (self
     \<lparr>self = \<lparr>amortized_investment = 10, rate = 5, fixed_capital = 5,
              current_investment = 100, last_trade_price = Some 100\<rparr>,
      csv = None, sent = [], logged = []\<rparr>) = Some 100 \<and>
   run_bot_loop
     \<lparr>self = \<lparr>amortized_investment = 10, rate = 5, fixed_capital = 5,
              current_investment = 100, last_trade_price = Some 100\<rparr>,
      csv = None, sent = [], logged = []\<rparr>
     [\<lparr>market = Some ([], 99), sizing = None, order_result = True\<rparr>] =
   Running
     \<lparr>self = \<lparr>amortized_investment = 10, rate = 5, fixed_capital = 5,
              current_investment = 100, last_trade_price = Some 100\<rparr>,
      csv = None, sent = [], logged = []\<rparr> \<and>
   Not_enough_capital \<in> set (new_lines
     \<lparr>self = \<lparr>amortized_investment = 10, rate = 5, fixed_capital = 5,
              current_investment = 100, last_trade_price = Some 100\<rparr>,
      csv = None, sent = [], logged = []\<rparr>
     (run_bot_tick
       \<lparr>self = \<lparr>amortized_investment = 10, rate = 5, fixed_capital = 5,
                current_investment = 100, last_trade_price = Some 100\<rparr>,
        csv = None, sent = [], logged = []\<rparr>
       \<lparr>market = Some ([], 94), sizing = None, order_result = True\<rparr>)) \<and>
   (\<exists>w'. run_bot_loop
       \<lparr>self = \<lparr>amortized_investment = 10, rate = 5, fixed_capital = 5,
                current_investment = 100, last_trade_price = Some 100\<rparr>,
        csv = None, sent = [], logged = []\<rparr>
       ([\<lparr>market = Some ([], 99), sizing = None, order_result = True\<rparr>] @
        \<lparr>market = Some ([], 94), sizing = None, order_result = True\<rparr> #
        [\<lparr>market = Some ([], 106),
          sizing = Some ([LOT_SIZE (1 / 100), MIN_NOTIONAL 5], 106),
          order_result = True\<rparr>]) = Returned w' \<and>
      self w' = \<lparr>amortized_investment = 10, rate = 5, fixed_capital = 5,
                 current_investment = 100, last_trade_price = Some 100\<rparr> \<and>
      csv w' = None \<and> sent w' = [])"
proof -
  have l: "run_bot_loop
     \<lparr>self = \<lparr>amortized_investment = 10, rate = 5, fixed_capital = 5,
              current_investment = 100, last_trade_price = Some 100\<rparr>,
      csv = None, sent = [], logged = []\<rparr>
     [\<lparr>market = Some ([], 99), sizing = None, order_result = True\<rparr>] =
   Running
     \<lparr>self = \<lparr>amortized_investment = 10, rate = 5, fixed_capital = 5,
              current_investment = 100, last_trade_price = Some 100\<rparr>,
      csv = None, sent = [], logged = []\<rparr>"
    by code_simp
  have n: "Not_enough_capital \<in> set (new_lines
     \<lparr>self = \<lparr>amortized_investment = 10, rate = 5, fixed_capital = 5,
              current_investment = 100, last_trade_price = Some 100\<rparr>,
      csv = None, sent = [], logged = []\<rparr>
     (run_bot_tick
       \<lparr>self = \<lparr>amortized_investment = 10, rate = 5, fixed_capital = 5,
                current_investment = 100, last_trade_price = Some 100\<rparr>,
        csv = None, sent = [], logged = []\<rparr>
       \<lparr>market = Some ([], 94), sizing = None, order_result = True\<rparr>))"
    by code_simp
  from l n halted_is_terminal
    [of "\<lparr>market = Some ([], 94), sizing = None, order_result = True\<rparr>" "[]" 94
        "\<lparr>self = \<lparr>amortized_investment = 10, rate = 5, fixed_capital = 5,
                 current_investment = 100, last_trade_price = Some 100\<rparr>,
          csv = None, sent = [], logged = []\<rparr>" 100
        "\<lparr>self = \<lparr>amortized_investment = 10, rate = 5, fixed_capital = 5,
                 current_investment = 100, last_trade_price = Some 100\<rparr>,
          csv = None, sent = [], logged = []\<rparr>"
        "[\<lparr>market = Some ([], 99), sizing = None, order_result = True\<rparr>]"
        "[\<lparr>market = Some ([], 106),
          sizing = Some ([LOT_SIZE (1 / 100), MIN_NOTIONAL 5], 106),
          order_result = True\<rparr>]"]
  show ?thesis by simp
qed

section \<open>Trade sizing\<close>

text \<open>
  C8 does not hold of the sizing function. With an amount of \<open>10\<close>, a price of \<open>1000\<close>,
  a step size of \<open>0.00001\<close> and a minimum notional of \<open>10\<close>, the raw quantity \<open>0.01\<close> is
  \<open>1000\<close> steps, worth \<open>10\<close>. The function divides two doubles, gets a quotient just
  below \<open>1000\<close>, floors it to \<open>999\<close>, finds a value of \<open>9.99\<close> below the minimum and
  forces the quantity to \<open>0\<close>: the pass of \<^verbatim>\<open>run_bot\<close> sends no order.
\<close>

theorem sizing_floors_a_double_quotient:
  "get_quantity_to_trade 10 (Some ([LOT_SIZE (1 / 100000), MIN_NOTIONAL 10], 1000)) =
     Inr (0, fl (999 / 100)) \<and>
   fl (999 / 100) < 10 \<and>
   \<lfloor>fl (fl (10 / 1000) / fl (1 / 100000))\<rfloor> = 999 \<and>
   \<lfloor>(10 / 1000) / (1 / 100000 :: rat)\<rfloor> = 1000 \<and>
   of_int \<lfloor>(10 / 1000) / (1 / 100000 :: rat)\<rfloor> * (1 / 100000) * (1000 :: rat) = 10 \<and>
   run_bot_tick
     \<lparr>self = \<lparr>amortized_investment = 10, rate = 5, fixed_capital = 1000,
              current_investment = 0, last_trade_price = Some 1100\<rparr>,
      csv = None, sent = [], logged = []\<rparr>
     \<lparr>market = Some ([PRICE_FILTER (1 / 100)], 1000),
      sizing = Some ([LOT_SIZE (1 / 100000), MIN_NOTIONAL 10], 1000),
      order_result = True\<rparr> =
   Running
     \<lparr>self = \<lparr>amortized_investment = 10, rate = 5, fixed_capital = 1000,
              current_investment = 0, last_trade_price = Some 1100\<rparr>,
      csv = None, sent = [], logged = [Considering_buy (fl (9091 / 1000))]\<rparr>"
  by code_simp

text \<open>
  At the documented inputs the function gives the documented results, and the pass of
  \<^verbatim>\<open>run_bot\<close> trades with a minimum notional of \<open>10\<close> and skips the trade with one of
  \<open>15\<close>; a quantity of \<open>0\<close> never trades.
\<close>

lemma sizing_documented_examples:
  "get_quantity_to_trade 10 (Some ([LOT_SIZE (1 / 10000), MIN_NOTIONAL 10], 50000)) =
     Inr (fl (2 / 10000), 10) \<and>
   get_quantity_to_trade 10 (Some ([LOT_SIZE (1 / 10000), MIN_NOTIONAL 15], 50000)) =
     Inr (0, 10)"
  by code_simp

lemma run_bot_tick_example_proceeds:
  "run_bot_tick
     \<lparr>self = \<lparr>amortized_investment = 10, rate = 5, fixed_capital = 1000,
              current_investment = 0, last_trade_price = Some 53000\<rparr>,
      csv = None, sent = [], logged = []\<rparr>
     \<lparr>market = Some ([PRICE_FILTER (1 / 100)], 50000),
      sizing = Some ([LOT_SIZE (1 / 10000), MIN_NOTIONAL 10], 50000),
      order_result = True\<rparr> =
   Running
     \<lparr>self = \<lparr>amortized_investment = 10, rate = 5, fixed_capital = 1000,
              current_investment = 0, last_trade_price = Some 50000\<rparr>,
      csv = Some [Header, Row 10 5 0 1000 50000],
      sent = [order_limit_buy (fl (2 / 10000)) 50000],
      logged = [Considering_buy (fl (566 / 100))]\<rparr>"
  by code_simp

lemma run_bot_tick_example_skipped:
  "run_bot_tick
     \<lparr>self = \<lparr>amortized_investment = 10, rate = 5, fixed_capital = 1000,
              current_investment = 0, last_trade_price = Some 53000\<rparr>,
      csv = None, sent = [], logged = []\<rparr>
     \<lparr>market = Some ([PRICE_FILTER (1 / 100)], 50000),
      sizing = Some ([LOT_SIZE (1 / 10000), MIN_NOTIONAL 15], 50000),
      order_result = True\<rparr> =
   Running
     \<lparr>self = \<lparr>amortized_investment = 10, rate = 5, fixed_capital = 1000,
              current_investment = 0, last_trade_price = Some 53000\<rparr>,
      csv = None, sent = [],
      logged = [Considering_buy (fl (566 / 100))]\<rparr>"
  by code_simp

lemma trade_zero_quantity:
  "get_quantity_to_trade (amortized_investment (self w)) (sizing t) = Inr (0, v) \<Longrightarrow>
     trade a w t info p = Running w"
  by (simp add: trade_def)


end
